theory Spec2Isabelle
  imports Main "HOL-Library.Word"
begin

unbundle bit_operations_syntax

section \<open>The data model of dtls.h\<close>

text \<open>
  The header is modelled in its default configuration (\<^verbatim>\<open>WITH_CONTIKI\<close> undefined,
  \<^verbatim>\<open>DTLSv12\<close> undefined). The fixed-width types \<^verbatim>\<open>uint8\<close>, \<^verbatim>\<open>uint16\<close>,
  \<^verbatim>\<open>uint24\<close> and \<^verbatim>\<open>uint48\<close> come from \<^verbatim>\<open>global.h\<close>; they are read as
  unsigned words of the width their names give. Pointers are addresses, \<open>0\<close> being
  \<^verbatim>\<open>NULL\<close>.
\<close>

type_synonym uint8 = "8 word"
type_synonym uint16 = "16 word"
type_synonym uint24 = "24 word"
type_synonym uint48 = "48 word"
type_synonym pointer = nat

definition DTLS_VERSION :: uint16 where
  "DTLS_VERSION = 0xfeff"

definition TLS_COMP_NULL :: uint8 where
  "TLS_COMP_NULL = 0x00"

datatype dtls_state_t =
    DTLS_STATE_INIT
  | DTLS_STATE_SERVERHELLO
  | DTLS_STATE_KEYEXCHANGE
  | DTLS_STATE_WAIT_FINISHED
  | DTLS_STATE_FINISHED
  | DTLS_STATE_CLIENTHELLO
  | DTLS_STATE_WAIT_SERVERHELLODONE
  | DTLS_STATE_WAIT_SERVERFINISHED
  | DTLS_STATE_CONNECTED
  | DTLS_STATE_CLOSING
  | DTLS_STATE_CLOSED

text \<open>
  \<^verbatim>\<open>session_t\<close> is declared in \<^verbatim>\<open>global.h\<close>. The header's own examples use
  its fields \<^verbatim>\<open>size\<close> (here \<open>size_field\<close>), \<^verbatim>\<open>addr\<close> and \<^verbatim>\<open>ifindex\<close>.
\<close>

record session_t =
  size_field :: nat
  addr :: "uint8 list"
  ifindex :: int

text \<open>
  \<^verbatim>\<open>dtls_hash_ctx\<close> (hmac.h) and \<^verbatim>\<open>dtls_security_parameters_t\<close> (crypto.h)
  are opaque to this header: both are kept as the bytes they occupy.
\<close>

type_synonym dtls_hash_ctx = "uint8 list"
type_synonym dtls_security_parameters_t = "uint8 list"

record dtls_hs_state_t =
  mseq :: uint24
  hs_hash :: dtls_hash_ctx

record dtls_peer_t =
  session :: session_t
  state :: dtls_state_t
  epoch :: uint16
  rseq :: uint48
  hs_state :: dtls_hs_state_t
  security_params :: "dtls_security_parameters_t \<times> dtls_security_parameters_t"
  config :: int

definition DTLS_COOKIE_SECRET_LENGTH :: nat where
  "DTLS_COOKIE_SECRET_LENGTH = 12"

text \<open>
  \<^verbatim>\<open>dtls_context_t\<close>: the peer hash map is an association list keyed by the
  session, the send queue a list of (session, packet) pairs, \<^verbatim>\<open>app\<close> and \<^verbatim>\<open>h\<close>
  are pointers.
\<close>

record dtls_context_t =
  cookie_secret :: "uint8 list"
  cookie_secret_age :: nat
  peers :: "(session_t \<times> dtls_peer_t) list"
  sendqueue :: "(session_t \<times> uint8 list) list"
  app :: pointer
  h :: pointer
  readbuf :: "uint8 list"
  sendbuf :: "uint8 list"

text \<open>
  \<^verbatim>\<open>#define dtls_set_app_data(CTX,DATA) ((CTX)->app = (DATA))\<close>: an assignment
  expression. Its value is the value stored, its effect the updated context.
\<close>

definition dtls_set_app_data :: "dtls_context_t \<Rightarrow> pointer \<Rightarrow> pointer \<times> dtls_context_t" where
  "dtls_set_app_data CTX DATA = (DATA, CTX\<lparr>app := DATA\<rparr>)"

text \<open>\<^verbatim>\<open>#define dtls_get_app_data(CTX) ((CTX)->app)\<close>\<close>

definition dtls_get_app_data :: "dtls_context_t \<Rightarrow> pointer" where
  "dtls_get_app_data CTX = app CTX"

text \<open>
  \<^verbatim>\<open>static inline void dtls_set_handler(dtls_context_t *ctx, dtls_handler_t *h)
  { ctx->h = h; }\<close>
\<close>

definition dtls_set_handler :: "dtls_context_t \<Rightarrow> pointer \<Rightarrow> dtls_context_t" where
  "dtls_set_handler ctx hp = ctx\<lparr>h := hp\<rparr>"

definition DTLS_COOKIE_LENGTH :: nat where
  "DTLS_COOKIE_LENGTH = 16"

definition DTLS_CT_CHANGE_CIPHER_SPEC :: uint8 where
  "DTLS_CT_CHANGE_CIPHER_SPEC = 20"

definition DTLS_CT_ALERT :: uint8 where
  "DTLS_CT_ALERT = 21"

definition DTLS_CT_HANDSHAKE :: uint8 where
  "DTLS_CT_HANDSHAKE = 22"

definition DTLS_CT_APPLICATION_DATA :: uint8 where
  "DTLS_CT_APPLICATION_DATA = 23"

text \<open>
  \<^verbatim>\<open>dtls_record_header_t\<close>, the generic header of the record layer, field by
  field in the order of the declaration. The field \<^verbatim>\<open>length\<close> is \<open>length_field\<close>
  here.
\<close>

record dtls_record_header_t =
  content_type :: uint8
  version :: uint16
  epoch :: uint16
  sequence_number :: uint48
  length_field :: uint16

section \<open>The record layer, from the specification\<close>

text \<open>
  Only \<^verbatim>\<open>dtls.h\<close> is among the sources: the codec, the record layer and the
  dispatch of \<^verbatim>\<open>dtls_handle_message\<close> are declared there and implemented
  elsewhere. What follows of them is written from the specification and marked so.
\<close>

text \<open>
  Modelled from the spec: the error kinds a failing operation of the codec or the
  record layer returns (section 7); no error type is declared in \<^verbatim>\<open>dtls.h\<close>.
\<close>

datatype error_kind =
    Malformed_record
  | Unsupported_version
  | Unexpected_message
  | Bad_mac
  | Replay
  | Handshake_failure
  | Internal_error
  | Closed
  | Key_not_found

text \<open>
  Modelled from the spec: the integer width helpers of the wire codec (section 2,
  "big-endian fields"), which \<^verbatim>\<open>global.h\<close> holds. \<open>be_bytes n w\<close> are the
  low \<open>n\<close> bytes of \<open>w\<close>, the most significant first; \<open>be_word\<close> reads such
  bytes back.
\<close>

definition be_bytes :: "nat \<Rightarrow> 'a::len word \<Rightarrow> uint8 list" where
  "be_bytes n w = map (\<lambda>i. ucast (drop_bit (8 * i) w)) (rev [0..<n])"

definition be_word :: "uint8 list \<Rightarrow> 'a::len word" where
  "be_word bs = foldl (\<lambda>acc b. push_bit 8 acc OR ucast b) 0 bs"

text \<open>
  Modelled from the spec: the pack and unpack of a record header (section 4.1), whose
  code is not among the sources. The encoder writes the fields of
  \<^verbatim>\<open>dtls_record_header_t\<close> in the order the struct declares them. The decoder
  fails with \<open>Malformed_record\<close> on a buffer shorter than a header and with
  \<open>Unexpected_message\<close> on a content type that is none of the four
  \<^verbatim>\<open>DTLS_CT_\<close> constants.
\<close>

definition DTLS_RH_LENGTH :: nat where
  "DTLS_RH_LENGTH = 13"

definition dtls_record_header_encode :: "dtls_record_header_t \<Rightarrow> uint8 list" where
  "dtls_record_header_encode hdr =
     [content_type hdr] @ be_bytes 2 (version hdr) @ be_bytes 2 (epoch hdr)
       @ be_bytes 6 (sequence_number hdr) @ be_bytes 2 (length_field hdr)"

definition valid_content_type :: "uint8 \<Rightarrow> bool" where
  "valid_content_type ct =
     (ct = DTLS_CT_CHANGE_CIPHER_SPEC \<or> ct = DTLS_CT_ALERT
      \<or> ct = DTLS_CT_HANDSHAKE \<or> ct = DTLS_CT_APPLICATION_DATA)"

definition dtls_record_header_decode :: "uint8 list \<Rightarrow> error_kind + dtls_record_header_t" where
  "dtls_record_header_decode msg =
     (if length msg < DTLS_RH_LENGTH then Inl Malformed_record
      else if \<not> valid_content_type (msg ! 0) then Inl Unexpected_message
      else Inr \<lparr>content_type = msg ! 0,
                version = be_word (take 2 (drop 1 msg)),
                epoch = be_word (take 2 (drop 3 msg)),
                sequence_number = be_word (take 6 (drop 5 msg)),
                length_field = be_word (take 2 (drop 11 msg))\<rparr>)"

text \<open>
  Modelled from the spec: the anti-replay window of the receive path (section 4.4),
  "a 64-bit bitmap over the last 64 sequence numbers". \<^verbatim>\<open>dtls_peer_t\<close> of
  \<^verbatim>\<open>dtls.h\<close> has no field for it and the receive path is not among the
  sources. \<open>high_water\<close> is the highest sequence number accepted so far; bit \<open>i\<close>
  of \<open>bitmap\<close> stands for the sequence number \<open>high_water - i\<close>.
\<close>

record replay_window =
  high_water :: nat
  bitmap :: "64 word"

definition window_init :: replay_window where
  "window_init = \<lparr>high_water = 0, bitmap = 0\<rparr>"

text \<open>
  Modelled from the spec: a sequence number inside the window counts as seen when its
  bit is set.
\<close>

definition window_seen :: "replay_window \<Rightarrow> nat \<Rightarrow> bool" where
  "window_seen w s =
     (s \<le> high_water w \<and> high_water w - s < 64 \<and> bit (bitmap w) (high_water w - s))"

text \<open>
  Modelled from the spec: the test of a sequence number against the window. A number
  above the high-water mark passes; "a sequence below the window minus 63 is
  dropped"; "a sequence within the window that has already been seen is dropped".
\<close>

definition replay_check :: "replay_window \<Rightarrow> nat \<Rightarrow> bool" where
  "replay_check w s =
     (if high_water w < s then True
      else if s + 63 < high_water w then False
      else \<not> bit (bitmap w) (high_water w - s))"

text \<open>
  Modelled from the spec: "an accepted sequence shifts the window and marks its
  bit". A number above the high-water mark becomes the mark and the bitmap moves up by
  the distance (a distance of 64 or more clears it); a number inside the window only
  sets its bit.
\<close>

definition replay_update :: "replay_window \<Rightarrow> nat \<Rightarrow> replay_window" where
  "replay_update w s =
     (if high_water w < s
      then \<lparr>high_water = s,
            bitmap = (if s - high_water w < 64
                      then push_bit (s - high_water w) (bitmap w) else 0) OR 1\<rparr>
      else w\<lparr>bitmap := set_bit (high_water w - s) (bitmap w)\<rparr>)"

text \<open>
  Modelled from the spec: the peer state of section 3, which holds the anti-replay
  window beside what \<^verbatim>\<open>dtls_peer_t\<close> declares.
\<close>

record peer_state =
  peer :: dtls_peer_t
  window :: replay_window

text \<open>
  Modelled from the spec: the replay stage of the receive path for one inbound
  sequence number. The verdict is \<open>True\<close> for accepted; a dropped record leaves the
  peer as it was.
\<close>

definition peer_receive :: "peer_state \<Rightarrow> nat \<Rightarrow> bool \<times> peer_state" where
  "peer_receive p s =
     (if replay_check (window p) s
      then (True, p\<lparr>window := replay_update (window p) s\<rparr>)
      else (False, p))"

text \<open>
  Modelled from the spec: a run of the replay stage over the sequence numbers of the
  records a peer receives, in their order of arrival. It returns the accepted numbers
  in order and the peer after the last record.
\<close>

fun peer_receive_all :: "peer_state \<Rightarrow> nat list \<Rightarrow> nat list \<times> peer_state" where
  "peer_receive_all p [] = ([], p)"
| "peer_receive_all p (s # ss) =
     (case peer_receive p s of
        (ok, p') \<Rightarrow>
          (case peer_receive_all p' ss of
             (acc, p'') \<Rightarrow> ((if ok then [s] else []) @ acc, p'')))"

text \<open>
  Modelled from the spec: the entry of the receive path (sections 4.1 and 7). A record
  whose header fails to decode is dropped with the error kind and the peer is left
  untouched. What happens to a record that decodes (version and epoch checks, replay
  check, decryption, demultiplexing) is the parameter \<open>process\<close>.
\<close>

definition record_receive ::
  "(peer_state \<Rightarrow> dtls_record_header_t \<Rightarrow> uint8 list \<Rightarrow> 'r \<times> peer_state)
   \<Rightarrow> peer_state \<Rightarrow> uint8 list \<Rightarrow> (error_kind + 'r) \<times> peer_state" where
  "record_receive process p msg =
     (case dtls_record_header_decode msg of
        Inl e \<Rightarrow> (Inl e, p)
      | Inr hdr \<Rightarrow>
          (case process p hdr (drop DTLS_RH_LENGTH msg) of
             (r, p') \<Rightarrow> (Inr r, p')))"

section \<open>Auxiliary predicates and concrete inputs\<close>

text \<open>
  \<open>blocked w s\<close>: the window \<open>w\<close> turns the sequence number \<open>s\<close> away, because
  it lies below the window or because its bit is set.
\<close>

definition blocked :: "replay_window \<Rightarrow> nat \<Rightarrow> bool" where
  "blocked w s =
     (s \<le> high_water w \<and> (s + 63 < high_water w \<or> bit (bitmap w) (high_water w - s)))"

text \<open>
  \<open>window_inv w A\<close>: the window \<open>w\<close> agrees with the set \<open>A\<close> of the sequence
  numbers accepted so far. None of them lies above the high-water mark, and the bits
  set in the window are those of the accepted numbers the window still covers.
\<close>

definition window_inv :: "replay_window \<Rightarrow> nat set \<Rightarrow> bool" where
  "window_inv w A \<longleftrightarrow>
     (\<forall>s\<in>A. s \<le> high_water w) \<and>
     (\<forall>s. window_seen w s \<longleftrightarrow> s \<in> A \<and> high_water w < s + 64)"

text \<open>
  A peer in the connected state with a fresh window, the same peer after the records
  0 and 70, and two record headers: one of application data, one with the content
  type 24, which no \<^verbatim>\<open>DTLS_CT_\<close> constant names.
\<close>

definition connected_peer :: peer_state where
  "connected_peer =
     \<lparr>peer = \<lparr>session = \<lparr>size_field = 4, addr = [192, 0, 2, 1], ifindex = 0\<rparr>,
              state = DTLS_STATE_CONNECTED, epoch = 1, rseq = 0,
              hs_state = \<lparr>mseq = 0, hs_hash = []\<rparr>,
              security_params = ([], []), config = 0\<rparr>,
      window = window_init\<rparr>"

definition peer_at_70 :: peer_state where
  "peer_at_70 = snd (peer_receive_all connected_peer [0, 70])"

definition app_data_header :: dtls_record_header_t where
  "app_data_header =
     \<lparr>content_type = 23, version = 0xfeff, epoch = 1, sequence_number = 5, length_field = 3\<rparr>"

definition spurious_header :: dtls_record_header_t where
  "spurious_header =
     \<lparr>content_type = 24, version = 0xfeff, epoch = 1, sequence_number = 5, length_field = 3\<rparr>"

section \<open>The wire codec of the record header\<close>

lemma length_be_bytes: "length (be_bytes n w) = n"
  by (simp add: be_bytes_def)

lemma be_bytes_Suc: "be_bytes (Suc n) w = be_bytes n (drop_bit 8 w) @ [ucast w]"
proof -
  have "[0..<Suc n] = 0 # map Suc [0..<n]"
    by (simp add: upt_conv_Cons map_Suc_upt del: upt_Suc)
  then show ?thesis
    by (simp add: be_bytes_def rev_map add.commute del: upt_Suc)
qed

lemma be_word_snoc: "be_word (bs @ [b]) = push_bit 8 (be_word bs) OR ucast b"
  by (simp add: be_word_def)

text \<open>Reading back the low \<open>n\<close> bytes of a word gives its low \<open>8 * n\<close> bits.\<close>

lemma be_word_be_bytes: "be_word (be_bytes n w) = take_bit (8 * n) w"
proof (induction n arbitrary: w)
  case 0
  show ?case by (simp add: be_bytes_def be_word_def)
next
  case (Suc n)
  have "be_word (be_bytes (Suc n) w)
      = push_bit 8 (take_bit (8 * n) (drop_bit 8 w)) OR ucast (ucast w :: uint8)"
    by (simp add: be_bytes_Suc be_word_snoc Suc.IH)
  also have "\<dots> = take_bit (8 * Suc n) w"
    by (rule bit_word_eqI) (auto simp: bit_simps)
  finally show ?case .
qed

lemma be_word_uint16: "be_word (be_bytes 2 (w :: uint16)) = w"
  by (simp add: be_word_be_bytes take_bit_word_eq_self)

lemma be_word_uint48: "be_word (be_bytes 6 (w :: uint48)) = w"
  by (simp add: be_word_be_bytes take_bit_word_eq_self)

lemma length_dtls_record_header_encode: "length (dtls_record_header_encode hdr) = 13"
  by (simp add: dtls_record_header_encode_def length_be_bytes)

lemma decode_ok_content_type:
  "dtls_record_header_decode msg = Inr hdr \<Longrightarrow> valid_content_type (content_type hdr)"
  by (auto simp: dtls_record_header_decode_def split: if_splits)

lemma decode_encode_bad_content_type:
  "\<not> valid_content_type (content_type hdr) \<Longrightarrow>
   dtls_record_header_decode (dtls_record_header_encode hdr @ fragment) = Inl Unexpected_message"
  by (simp add: dtls_record_header_decode_def DTLS_RH_LENGTH_def
      length_dtls_record_header_encode)
    (simp add: dtls_record_header_encode_def)

text \<open>
  The decoder undoes the encoder on every header with one of the four content types,
  whatever follows the header in the datagram.
\<close>

lemma decode_encode:
  assumes "valid_content_type (content_type hdr)"
  shows "dtls_record_header_decode (dtls_record_header_encode hdr @ fragment) = Inr hdr"
proof -
  let ?m = "dtls_record_header_encode hdr @ fragment"
  have l: "\<not> length ?m < DTLS_RH_LENGTH"
    by (simp add: DTLS_RH_LENGTH_def dtls_record_header_encode_def length_be_bytes)
  have c: "?m ! 0 = content_type hdr"
    by (simp add: dtls_record_header_encode_def)
  have v: "take 2 (drop 1 ?m) = be_bytes 2 (version hdr)"
    by (simp add: dtls_record_header_encode_def length_be_bytes)
  have e: "take 2 (drop 3 ?m) = be_bytes 2 (dtls_record_header_t.epoch hdr)"
    by (simp add: dtls_record_header_encode_def length_be_bytes)
  have s: "take 6 (drop 5 ?m) = be_bytes 6 (sequence_number hdr)"
    by (simp add: dtls_record_header_encode_def length_be_bytes)
  have n: "take 2 (drop 11 ?m) = be_bytes 2 (length_field hdr)"
    by (simp add: dtls_record_header_encode_def length_be_bytes)
  show ?thesis
    unfolding dtls_record_header_decode_def
    by (simp only: l c v e s n assms be_word_uint16 be_word_uint48 if_False
        not_True_eq_False simp_thms)
      simp
qed

section \<open>The anti-replay window\<close>

lemma blocked_iff_not_check: "blocked w s \<longleftrightarrow> \<not> replay_check w s"
  by (auto simp: blocked_def replay_check_def)

lemma blocked_after_accept: "replay_check w s \<Longrightarrow> blocked (replay_update w s) s"
  by (auto simp: blocked_def replay_check_def replay_update_def bit_simps split: if_splits)

text \<open>Once the window turns a number away, it does so after every later update.\<close>

lemma blocked_update:
  "blocked w s \<Longrightarrow> replay_check w t \<Longrightarrow> blocked (replay_update w t) s"
  by (auto simp: blocked_def replay_check_def replay_update_def bit_simps split: if_splits)

lemma blocked_peer_receive:
  "blocked (window p) s \<Longrightarrow> blocked (window (snd (peer_receive p t))) s"
  by (simp add: peer_receive_def blocked_update)

lemma blocked_never_accepted:
  "blocked (window p) s \<Longrightarrow> s \<notin> set (fst (peer_receive_all p ss))"
proof (induction ss arbitrary: p)
  case Nil
  then show ?case by simp
next
  case (Cons t ss)
  have later: "s \<notin> set (fst (peer_receive_all (snd (peer_receive p t)) ss))"
    using Cons.prems by (intro Cons.IH blocked_peer_receive)
  have now: "fst (peer_receive p t) \<Longrightarrow> s \<noteq> t"
    using Cons.prems by (auto simp: peer_receive_def blocked_iff_not_check split: if_splits)
  show ?case using later now
    by (auto split: prod.splits)
qed

lemma accepted_distinct: "distinct (fst (peer_receive_all p ss))"
proof (induction ss arbitrary: p)
  case Nil
  then show ?case by simp
next
  case (Cons t ss)
  show ?case
  proof (cases "replay_check (window p) t")
    case True
    let ?p' = "p\<lparr>window := replay_update (window p) t\<rparr>"
    have "blocked (window ?p') t"
      using True by (simp add: blocked_after_accept)
    then have "t \<notin> set (fst (peer_receive_all ?p' ss))"
      by (rule blocked_never_accepted)
    then show ?thesis using True Cons.IH [of ?p']
      by (auto simp: peer_receive_def split: prod.splits)
  next
    case False
    then show ?thesis using Cons.IH [of p]
      by (auto simp: peer_receive_def split: prod.splits)
  qed
qed

lemma window_inv_init: "window_inv window_init {}"
  by (simp add: window_inv_def window_init_def window_seen_def)

lemma window_inv_update:
  assumes "window_inv w A" and "replay_check w t"
  shows "window_inv (replay_update w t) (insert t A)"
  using assms
  by (auto simp: window_inv_def window_seen_def replay_check_def replay_update_def bit_simps
      split: if_splits)

lemma window_inv_run:
  "window_inv (window p) A \<Longrightarrow>
   window_inv (window (snd (peer_receive_all p ss))) (A \<union> set (fst (peer_receive_all p ss)))"
proof (induction ss arbitrary: p A)
  case Nil
  then show ?case by simp
next
  case (Cons t ss)
  show ?case
  proof (cases "replay_check (window p) t")
    case True
    let ?p' = "p\<lparr>window := replay_update (window p) t\<rparr>"
    have "window_inv (window ?p') (insert t A)"
      using Cons.prems True by (simp add: window_inv_update)
    from Cons.IH [OF this] show ?thesis using True
      by (auto simp: peer_receive_def split: prod.splits)
  next
    case False
    from Cons.IH [OF Cons.prems] show ?thesis using False
      by (auto simp: peer_receive_def split: prod.splits)
  qed
qed

text \<open>
  After any run that starts from a fresh window, the bit of a sequence number is set
  exactly when the run accepted that number and the window still covers it.
\<close>

lemma seen_iff_accepted_before:
  assumes "window p0 = window_init"
  shows "window_seen (window (snd (peer_receive_all p0 rs))) s \<longleftrightarrow>
         s \<in> set (fst (peer_receive_all p0 rs))
         \<and> high_water (window (snd (peer_receive_all p0 rs))) < s + 64"
proof -
  have "window_inv (window p0) {}"
    using assms by (simp add: window_inv_init)
  from window_inv_run [OF this, of rs] show ?thesis
    by (simp add: window_inv_def)
qed

lemma peer_at_70_eq:
  "peer_at_70 = connected_peer\<lparr>window := \<lparr>high_water = 70, bitmap = 1\<rparr>\<rparr>"
  by (simp add: peer_at_70_def connected_peer_def peer_receive_def replay_check_def
      replay_update_def window_init_def)

text \<open>
  C2. For a peer in the connected state whose window has the high-water mark \<open>H\<close>: a
  record with the sequence number \<open>H - 63\<close> is accepted if it has not been seen; a
  record with a sequence number of \<open>H - 64\<close> or less is rejected; and in every run
  of inbound records no sequence number is accepted twice. "Seen" is the bit of the
  window; the last part says that, from a fresh window on, this bit is set exactly
  for the numbers accepted before that the window still covers.
\<close>

theorem anti_replay_window:
  assumes "state (peer p) = DTLS_STATE_CONNECTED"
  shows "(s + 63 = high_water (window p) \<and> \<not> window_seen (window p) s
            \<longrightarrow> fst (peer_receive p s))
       \<and> (s + 64 \<le> high_water (window p) \<longrightarrow> \<not> fst (peer_receive p s))
       \<and> distinct (fst (peer_receive_all p ss))
       \<and> (window p0 = window_init \<and> p = snd (peer_receive_all p0 rs)
            \<longrightarrow> (window_seen (window p) s \<longleftrightarrow>
                   s \<in> set (fst (peer_receive_all p0 rs)) \<and> high_water (window p) < s + 64))"
proof (intro conjI impI)
  assume "s + 63 = high_water (window p) \<and> \<not> window_seen (window p) s"
  then show "fst (peer_receive p s)"
    by (auto simp: peer_receive_def replay_check_def window_seen_def)
next
  assume "s + 64 \<le> high_water (window p)"
  then show "\<not> fst (peer_receive p s)"
    by (simp add: peer_receive_def replay_check_def)
next
  show "distinct (fst (peer_receive_all p ss))"
    by (rule accepted_distinct)
next
  assume "window p0 = window_init \<and> p = snd (peer_receive_all p0 rs)"
  then show "window_seen (window p) s \<longleftrightarrow>
      s \<in> set (fst (peer_receive_all p0 rs)) \<and> high_water (window p) < s + 64"
    using seen_iff_accepted_before [of p0 rs s] by simp
qed

text \<open>
  The connected peer that has accepted the records 0 and 70 has the high-water mark
  70. It accepts the record 7, which is 63 below and unseen, and rejects the record 6,
  which is 64 below. Of the run 7, 7, 71, 7, 8, 8 it accepts 7, 71 and 8, each once.
\<close>

theorem anti_replay_window_witness:
  "state (peer peer_at_70) = DTLS_STATE_CONNECTED
   \<and> 7 + 63 = high_water (window peer_at_70)
   \<and> \<not> window_seen (window peer_at_70) 7
   \<and> fst (peer_receive peer_at_70 7)
   \<and> 6 + 64 \<le> high_water (window peer_at_70)
   \<and> \<not> fst (peer_receive peer_at_70 6)
   \<and> distinct (fst (peer_receive_all peer_at_70 [7, 7, 71, 7, 8, 8]))
   \<and> fst (peer_receive_all peer_at_70 [7, 7, 71, 7, 8, 8]) = [7, 71, 8]
   \<and> window connected_peer = window_init
   \<and> window_seen (window peer_at_70) 70
   \<and> 70 \<in> set (fst (peer_receive_all connected_peer [0, 70]))"
proof -
  have c: "state (peer peer_at_70) = DTLS_STATE_CONNECTED"
    by (simp add: peer_at_70_eq connected_peer_def)
  have h: "high_water (window peer_at_70) = 70"
    by (simp add: peer_at_70_eq)
  have u: "\<not> window_seen (window peer_at_70) 7"
    by (simp add: peer_at_70_eq window_seen_def)
  have f: "window connected_peer = window_init"
    by (simp add: connected_peer_def)
  have r: "peer_at_70 = snd (peer_receive_all connected_peer [0, 70])"
    by (simp add: peer_at_70_def)
  have s: "window_seen (window peer_at_70) 70"
    by (simp add: peer_at_70_eq window_seen_def)
  have e: "fst (peer_receive_all peer_at_70 [7, 7, 71, 7, 8, 8]) = [7, 71, 8]"
    by code_simp
  show ?thesis
    using c h u f r s e
      anti_replay_window [OF c, of 7 "[7, 7, 71, 7, 8, 8]" connected_peer "[0, 70]"]
      anti_replay_window [OF c, of 6 "[]" connected_peer "[0, 70]"]
      anti_replay_window [OF c, of 70 "[]" connected_peer "[0, 70]"]
    by simp
qed

section \<open>The record header and its content type\<close>

text \<open>
  C7. An encoded record header is 13 bytes: the content type (1 byte), the version (2),
  the epoch (2), the sequence number (6) and the fragment length (2), in this order. A
  header decodes only when its content type is one of change-cipher-spec 20, alert 21,
  handshake 22 and application-data 23; a record with any other content type fails
  with the unexpected-message error kind and is dropped, and the peer is what it was:
  the session is not aborted.
\<close>

theorem record_header_layout_and_content_type:
  "length (dtls_record_header_encode hdr) = 13
   \<and> take 1 (dtls_record_header_encode hdr) = [content_type hdr]
   \<and> take 2 (drop 1 (dtls_record_header_encode hdr)) = be_bytes 2 (version hdr)
   \<and> take 2 (drop 3 (dtls_record_header_encode hdr)) = be_bytes 2 (dtls_record_header_t.epoch hdr)
   \<and> take 6 (drop 5 (dtls_record_header_encode hdr)) = be_bytes 6 (sequence_number hdr)
   \<and> take 2 (drop 11 (dtls_record_header_encode hdr)) = be_bytes 2 (length_field hdr)
   \<and> (dtls_record_header_decode msg = Inr hdr' \<longrightarrow> content_type hdr' \<in> {20, 21, 22, 23})
   \<and> (content_type hdr \<notin> {20, 21, 22, 23} \<longrightarrow>
        dtls_record_header_decode (dtls_record_header_encode hdr @ fragment)
          = Inl Unexpected_message
        \<and> record_receive process p (dtls_record_header_encode hdr @ fragment)
          = (Inl Unexpected_message, p))"
proof (intro conjI impI)
  show "length (dtls_record_header_encode hdr) = 13"
    by (rule length_dtls_record_header_encode)
next
  assume "dtls_record_header_decode msg = Inr hdr'"
  then have "valid_content_type (content_type hdr')"
    by (rule decode_ok_content_type)
  then show "content_type hdr' \<in> {20, 21, 22, 23}"
    by (auto simp: valid_content_type_def DTLS_CT_CHANGE_CIPHER_SPEC_def DTLS_CT_ALERT_def
        DTLS_CT_HANDSHAKE_def DTLS_CT_APPLICATION_DATA_def)
next
  assume "content_type hdr \<notin> {20, 21, 22, 23}"
  then have bad: "\<not> valid_content_type (content_type hdr)"
    by (simp add: valid_content_type_def DTLS_CT_CHANGE_CIPHER_SPEC_def DTLS_CT_ALERT_def
        DTLS_CT_HANDSHAKE_def DTLS_CT_APPLICATION_DATA_def)
  then show d: "dtls_record_header_decode (dtls_record_header_encode hdr @ fragment)
      = Inl Unexpected_message"
    by (rule decode_encode_bad_content_type)
  show "record_receive process p (dtls_record_header_encode hdr @ fragment)
      = (Inl Unexpected_message, p)"
    by (simp add: record_receive_def d)
qed (simp_all add: dtls_record_header_encode_def length_be_bytes)

text \<open>
  A datagram that starts with an application-data header decodes to this header. The
  header with the content type 24 is encoded in 13 bytes, and a peer that receives it
  drops the record and stays as it is.
\<close>

theorem record_header_layout_and_content_type_witness:
  "dtls_record_header_decode [23, 254, 255, 0, 1, 0, 0, 0, 0, 0, 5, 0, 3, 7, 8, 9]
     = Inr app_data_header
   \<and> content_type app_data_header \<in> {20, 21, 22, 23}
   \<and> content_type spurious_header \<notin> {20, 21, 22, 23}
   \<and> dtls_record_header_encode spurious_header = [24, 254, 255, 0, 1, 0, 0, 0, 0, 0, 5, 0, 3]
   \<and> length (dtls_record_header_encode spurious_header) = 13
   \<and> record_receive (\<lambda>p hdr fragment. (fragment, p)) connected_peer
        (dtls_record_header_encode spurious_header @ [7, 8, 9])
      = (Inl Unexpected_message, connected_peer)"
proof -
  have d: "dtls_record_header_decode [23, 254, 255, 0, 1, 0, 0, 0, 0, 0, 5, 0, 3, 7, 8, 9]
      = Inr app_data_header"
    by code_simp
  have b: "content_type spurious_header \<notin> {20, 21, 22, 23}"
    by (simp add: spurious_header_def)
  have e: "dtls_record_header_encode spurious_header
      = [24, 254, 255, 0, 1, 0, 0, 0, 0, 0, 5, 0, 3]"
    by code_simp
  note T = record_header_layout_and_content_type
        [of spurious_header "[23, 254, 255, 0, 1, 0, 0, 0, 0, 0, 5, 0, 3, 7, 8, 9]"
          app_data_header "[7, 8, 9]" "\<lambda>p hdr fragment. (fragment, p)" connected_peer]
  from T have l: "length (dtls_record_header_encode spurious_header) = 13"
    by (rule conjunct1)
  from T d have c: "content_type app_data_header \<in> {20, 21, 22, 23}"
    by blast
  from T b have r: "record_receive (\<lambda>p hdr fragment. (fragment, p)) connected_peer
        (dtls_record_header_encode spurious_header @ [7, 8, 9])
      = (Inl Unexpected_message, connected_peer)"
    by blast
  from d c b e l r show ?thesis
    by (intro conjI)
qed

section \<open>The application data pointer and the handler\<close>

text \<open>
  C9. Reading the application data of a context with \<^verbatim>\<open>dtls_get_app_data\<close> right
  after \<^verbatim>\<open>dtls_set_app_data(ctx, d)\<close> gives exactly \<open>d\<close>, for every context and
  every pointer \<open>d\<close>; \<open>d\<close> is also the value of the assignment expression itself.
\<close>

theorem dtls_get_app_data_after_set:
  "dtls_get_app_data (snd (dtls_set_app_data ctx d)) = d
   \<and> fst (dtls_set_app_data ctx d) = d"
  by (simp add: dtls_get_app_data_def dtls_set_app_data_def)

text \<open>
  C10. \<^verbatim>\<open>dtls_set_handler(ctx, h)\<close> stores \<open>h\<close> in the handler field of the context
  and changes no other field: the cookie secret, its age, the peer table, the send
  queue, the application data and both scratch buffers are what they were.
\<close>

theorem dtls_set_handler_frame:
  "h (dtls_set_handler ctx hp) = hp
   \<and> cookie_secret (dtls_set_handler ctx hp) = cookie_secret ctx
   \<and> cookie_secret_age (dtls_set_handler ctx hp) = cookie_secret_age ctx
   \<and> peers (dtls_set_handler ctx hp) = peers ctx
   \<and> sendqueue (dtls_set_handler ctx hp) = sendqueue ctx
   \<and> app (dtls_set_handler ctx hp) = app ctx
   \<and> readbuf (dtls_set_handler ctx hp) = readbuf ctx
   \<and> sendbuf (dtls_set_handler ctx hp) = sendbuf ctx"
  by (simp add: dtls_set_handler_def)

end
